theory Spec2Isabelle
  imports Complex_Main "HOL-Library.List_Lexorder" "HOL-Library.Char_ord"
begin

section \<open>Embedding layers of layers/Embed.py\<close>

text \<open>
  The embedding modules of \<^verbatim>\<open>layers/Embed.py\<close>, as functions on tensors. A tensor is
  its shape together with its elements as nested lists; the shape is kept beside the
  elements because a dimension of size zero would otherwise hide the sizes of the
  dimensions inside it. Floating-point numbers are read as real numbers. Every exception
  that Python or the tensor library raises is a value of type \<open>error\<close>; the weights
  that a constructor draws at random are given to it as a function of the index.
\<close>

subsection \<open>Errors\<close>

datatype error = ValueError | KeyError | IndexError | ZeroDivisionError | RuntimeError

subsection \<open>Tensors\<close>

datatype 'a tensor1 = Tensor1 (len1: nat) (el1: "'a list")

datatype 'a tensor2 = Tensor2 (rows2: nat) (cols2: nat) (el2: "'a list list")

datatype 'a tensor3 = Tensor3 (dim0: nat) (dim1: nat) (dim2: nat) (el3: "'a list list list")

datatype 'a tensor4 =
  Tensor4 (d4_0: nat) (d4_1: nat) (d4_2: nat) (d4_3: nat) (el4: "'a list list list list")

definition mk1 :: "nat \<Rightarrow> (nat \<Rightarrow> 'a) \<Rightarrow> 'a tensor1" where
  "mk1 n f = Tensor1 n (map f [0..<n])"

definition mk2 :: "nat \<Rightarrow> nat \<Rightarrow> (nat \<Rightarrow> nat \<Rightarrow> 'a) \<Rightarrow> 'a tensor2" where
  "mk2 r c f = Tensor2 r c (map (\<lambda>i. map (\<lambda>j. f i j) [0..<c]) [0..<r])"

definition mk3 :: "nat \<Rightarrow> nat \<Rightarrow> nat \<Rightarrow> (nat \<Rightarrow> nat \<Rightarrow> nat \<Rightarrow> 'a) \<Rightarrow> 'a tensor3" where
  "mk3 b l d f =
     Tensor3 b l d (map (\<lambda>i. map (\<lambda>j. map (\<lambda>k. f i j k) [0..<d]) [0..<l]) [0..<b])"

definition mk4 ::
  "nat \<Rightarrow> nat \<Rightarrow> nat \<Rightarrow> nat \<Rightarrow> (nat \<Rightarrow> nat \<Rightarrow> nat \<Rightarrow> nat \<Rightarrow> 'a) \<Rightarrow> 'a tensor4" where
  "mk4 a b c d f =
     Tensor4 a b c d
       (map (\<lambda>i. map (\<lambda>j. map (\<lambda>k. map (\<lambda>m. f i j k m) [0..<d]) [0..<c]) [0..<b]) [0..<a])"

definition at1 :: "'a tensor1 \<Rightarrow> nat \<Rightarrow> 'a" where
  "at1 t i = el1 t ! i"

definition at2 :: "'a tensor2 \<Rightarrow> nat \<Rightarrow> nat \<Rightarrow> 'a" where
  "at2 t i j = el2 t ! i ! j"

definition at3 :: "'a tensor3 \<Rightarrow> nat \<Rightarrow> nat \<Rightarrow> nat \<Rightarrow> 'a" where
  "at3 t i j k = el3 t ! i ! j ! k"

definition at4 :: "'a tensor4 \<Rightarrow> nat \<Rightarrow> nat \<Rightarrow> nat \<Rightarrow> nat \<Rightarrow> 'a" where
  "at4 t i j k m = el4 t ! i ! j ! k ! m"

text \<open>A tensor has a shape when its recorded sizes and its nested lists agree with it.\<close>

definition has_shape2 :: "'a tensor2 \<Rightarrow> nat \<Rightarrow> nat \<Rightarrow> bool" where
  "has_shape2 t r c \<longleftrightarrow>
     rows2 t = r \<and> cols2 t = c \<and> length (el2 t) = r \<and> list_all (\<lambda>row. length row = c) (el2 t)"

definition has_shape3 :: "'a tensor3 \<Rightarrow> nat \<Rightarrow> nat \<Rightarrow> nat \<Rightarrow> bool" where
  "has_shape3 t b l d \<longleftrightarrow>
     dim0 t = b \<and> dim1 t = l \<and> dim2 t = d \<and> length (el3 t) = b \<and>
     list_all (\<lambda>m. length m = l \<and> list_all (\<lambda>row. length row = d) m) (el3 t)"

text \<open>The sum of \<open>f 0, \<dots>, f (n - 1)\<close>, the contraction of a linear map or a convolution.\<close>

definition sum_upto :: "nat \<Rightarrow> (nat \<Rightarrow> real) \<Rightarrow> real" where
  "sum_upto n f = sum_list (map f [0..<n])"

subsection \<open>Tensor operations\<close>

text \<open>\<^verbatim>\<open>x.permute(0, 2, 1)\<close> and \<^verbatim>\<open>x.transpose(1, 2)\<close>.\<close>

definition permute021 :: "'a tensor3 \<Rightarrow> 'a tensor3" where
  "permute021 t = mk3 (dim0 t) (dim2 t) (dim1 t) (\<lambda>b i j. at3 t b j i)"

text \<open>\<^verbatim>\<open>torch.cat([s, t], dim=1)\<close>: the other two sizes have to agree.\<close>

definition cat_dim1 :: "'a tensor3 \<Rightarrow> 'a tensor3 \<Rightarrow> error + 'a tensor3" where
  "cat_dim1 s t =
     (if dim0 s = dim0 t \<and> dim2 s = dim2 t
      then Inr (mk3 (dim0 s) (dim1 s + dim1 t) (dim2 s)
             (\<lambda>b i j. if i < dim1 s then at3 s b i j else at3 t b (i - dim1 s) j))
      else Inl RuntimeError)"

text \<open>\<^verbatim>\<open>torch.cat([s, t], dim=2)\<close>.\<close>

definition cat_dim2 :: "'a tensor3 \<Rightarrow> 'a tensor3 \<Rightarrow> error + 'a tensor3" where
  "cat_dim2 s t =
     (if dim0 s = dim0 t \<and> dim1 s = dim1 t
      then Inr (mk3 (dim0 s) (dim1 s) (dim2 s + dim2 t)
             (\<lambda>b i j. if j < dim2 s then at3 s b i j else at3 t b i (j - dim2 s)))
      else Inl RuntimeError)"

text \<open>
  \<^verbatim>\<open>s + t\<close> with broadcasting: two sizes are compatible when they are equal or one of them
  is 1, and a dimension of size 1 is read at index 0 throughout.
\<close>

definition bc_ok :: "nat \<Rightarrow> nat \<Rightarrow> bool" where
  "bc_ok m n \<longleftrightarrow> m = n \<or> m = 1 \<or> n = 1"

definition bc_dim :: "nat \<Rightarrow> nat \<Rightarrow> nat" where
  "bc_dim m n = (if m = 1 then n else m)"

definition bc_ix :: "nat \<Rightarrow> nat \<Rightarrow> nat" where
  "bc_ix m i = (if m = 1 then 0 else i)"

definition add3 :: "real tensor3 \<Rightarrow> real tensor3 \<Rightarrow> error + real tensor3" where
  "add3 s t =
     (if bc_ok (dim0 s) (dim0 t) \<and> bc_ok (dim1 s) (dim1 t) \<and> bc_ok (dim2 s) (dim2 t)
      then Inr (mk3 (bc_dim (dim0 s) (dim0 t)) (bc_dim (dim1 s) (dim1 t)) (bc_dim (dim2 s) (dim2 t))
             (\<lambda>b i j. at3 s (bc_ix (dim0 s) b) (bc_ix (dim1 s) i) (bc_ix (dim2 s) j)
                     + at3 t (bc_ix (dim0 t) b) (bc_ix (dim1 t) i) (bc_ix (dim2 t) j)))
      else Inl RuntimeError)"

text \<open>\<^verbatim>\<open>torch.zeros_like(t)\<close>.\<close>

definition zeros_like :: "real tensor3 \<Rightarrow> real tensor3" where
  "zeros_like t = mk3 (dim0 t) (dim1 t) (dim2 t) (\<lambda>b i j. 0)"

subsection \<open>PositionalEmbedding\<close>

text \<open>
  The table that \<^verbatim>\<open>PositionalEmbedding.__init__\<close> and \<^verbatim>\<open>FixedEmbedding.__init__\<close> both
  build, for \<open>n\<close> rows. \<^verbatim>\<open>torch.arange(0, d_model, 2)\<close> has \<open>(d_model + 1) div 2\<close>
  entries, the \<open>i\<close>-th being \<open>2 * i\<close>. \<^verbatim>\<open>math.log(10000.0) / d_model\<close> raises for
  \<open>d_model = 0\<close>. The assignment to the columns \<^verbatim>\<open>0::2\<close> always fits; the assignment to the
  columns \<^verbatim>\<open>1::2\<close>, of which there are \<open>d_model div 2\<close>, needs the right-hand side to
  broadcast to them.
\<close>

definition div_term :: "nat \<Rightarrow> nat \<Rightarrow> real" where
  "div_term d_model i = exp (real (2 * i) * - (ln 10000 / real d_model))"

definition sinusoid_table :: "nat \<Rightarrow> nat \<Rightarrow> error + real tensor2" where
  "sinusoid_table n d_model =
     (if d_model = 0 then Inl ZeroDivisionError
      else
        let n_div = (d_model + 1) div 2; n_odd = d_model div 2 in
        if \<not> (n_div = n_odd \<or> n_div = 1) then Inl RuntimeError
        else Inr (mk2 n d_model
               (\<lambda>p c. if even c then sin (real p * div_term d_model (c div 2))
                      else cos (real p * div_term d_model (c div 2)))))"

record PositionalEmbedding =
  pe :: "real tensor3"

text \<open>\<^verbatim>\<open>pe.unsqueeze(0)\<close>.\<close>

definition unsqueeze0 :: "'a tensor2 \<Rightarrow> 'a tensor3" where
  "unsqueeze0 t = mk3 1 (rows2 t) (cols2 t) (\<lambda>b i j. at2 t i j)"

definition PositionalEmbedding_init :: "nat \<Rightarrow> nat \<Rightarrow> error + PositionalEmbedding" where
  "PositionalEmbedding_init d_model max_len =
     (case sinusoid_table max_len d_model of
        Inl e \<Rightarrow> Inl e
      | Inr w \<Rightarrow> Inr \<lparr>pe = unsqueeze0 w\<rparr>)"

text \<open>\<^verbatim>\<open>self.pe[:, : x.size(1)]\<close>: a slice past the end stops at the end.\<close>

definition slice_dim1 :: "nat \<Rightarrow> 'a tensor3 \<Rightarrow> 'a tensor3" where
  "slice_dim1 n t = mk3 (dim0 t) (min n (dim1 t)) (dim2 t) (at3 t)"

definition PositionalEmbedding_forward :: "PositionalEmbedding \<Rightarrow> 'a tensor3 \<Rightarrow> real tensor3" where
  "PositionalEmbedding_forward m x = slice_dim1 (dim1 x) (pe m)"

subsection \<open>Sequencing of fallible steps\<close>

definition res_bind :: "error + 'a \<Rightarrow> ('a \<Rightarrow> error + 'b) \<Rightarrow> error + 'b" where
  "res_bind r f = (case r of Inl e \<Rightarrow> Inl e | Inr v \<Rightarrow> f v)"

subsection \<open>The random draws of the constructors, and the library version\<close>

text \<open>
  The values that the constructors draw for their weights: the two linear layers of the
  prompt projector, the convolution of \<^verbatim>\<open>TokenEmbedding\<close>, the learned lookup tables
  (by attribute name), the projection of \<^verbatim>\<open>TimeFeatureEmbedding\<close> and the linear value
  embeddings.
\<close>

record draws =
  proj_w1 :: "nat \<Rightarrow> nat \<Rightarrow> real"
  proj_b1 :: "nat \<Rightarrow> real"
  proj_w2 :: "nat \<Rightarrow> nat \<Rightarrow> real"
  proj_b2 :: "nat \<Rightarrow> real"
  conv_w :: "nat \<Rightarrow> nat \<Rightarrow> nat \<Rightarrow> real"
  table_w :: "string \<Rightarrow> nat \<Rightarrow> nat \<Rightarrow> real"
  timef_w :: "nat \<Rightarrow> nat \<Rightarrow> real"
  linear_w :: "nat \<Rightarrow> nat \<Rightarrow> real"
  linear_b :: "nat \<Rightarrow> real"

subsection \<open>nn.Linear, nn.Tanh, nn.Dropout\<close>

record Linear =
  weight :: "real tensor2"
  bias :: "real tensor1 option"

definition Linear_init ::
  "nat \<Rightarrow> nat \<Rightarrow> bool \<Rightarrow> (nat \<Rightarrow> nat \<Rightarrow> real) \<Rightarrow> (nat \<Rightarrow> real) \<Rightarrow> Linear" where
  "Linear_init in_features out_features with_bias w0 b0 =
     \<lparr>weight = mk2 out_features in_features w0,
      bias = (if with_bias then Some (mk1 out_features b0) else None)\<rparr>"

definition bias_at :: "Linear \<Rightarrow> nat \<Rightarrow> real" where
  "bias_at m out = (case bias m of None \<Rightarrow> 0 | Some b \<Rightarrow> at1 b out)"

text \<open>The layer applied to the last axis of a tensor of rank 3, and of rank 2.\<close>

definition Linear_forward :: "Linear \<Rightarrow> real tensor3 \<Rightarrow> error + real tensor3" where
  "Linear_forward m x =
     (if dim2 x \<noteq> cols2 (weight m) then Inl RuntimeError
      else Inr (mk3 (dim0 x) (dim1 x) (rows2 (weight m))
             (\<lambda>b i out. sum_upto (dim2 x) (\<lambda>k. at3 x b i k * at2 (weight m) out k)
                        + bias_at m out)))"

definition Linear_forward2 :: "Linear \<Rightarrow> real tensor2 \<Rightarrow> error + real tensor2" where
  "Linear_forward2 m x =
     (if cols2 x \<noteq> cols2 (weight m) then Inl RuntimeError
      else Inr (mk2 (rows2 x) (rows2 (weight m))
             (\<lambda>b out. sum_upto (cols2 x) (\<lambda>k. at2 x b k * at2 (weight m) out k)
                      + bias_at m out)))"

definition Tanh_forward2 :: "real tensor2 \<Rightarrow> real tensor2" where
  "Tanh_forward2 x = mk2 (rows2 x) (cols2 x) (\<lambda>b k. tanh (at2 x b k))"

record Dropout =
  dropout_p :: real

definition Dropout_init :: "real \<Rightarrow> error + Dropout" where
  "Dropout_init prob = (if prob < 0 \<or> 1 < prob then Inl ValueError else Inr \<lparr>dropout_p = prob\<rparr>)"

text \<open>
  The module is in evaluation mode, or in training mode with the elements that this call
  drops.
\<close>

datatype mode = Eval | Train "nat \<Rightarrow> nat \<Rightarrow> nat \<Rightarrow> bool"

definition Dropout_forward :: "Dropout \<Rightarrow> mode \<Rightarrow> real tensor3 \<Rightarrow> real tensor3" where
  "Dropout_forward m md x =
     (case md of
        Eval \<Rightarrow> x
      | Train dropped \<Rightarrow>
          mk3 (dim0 x) (dim1 x) (dim2 x)
            (\<lambda>b i j. if dropout_p m = 1 \<or> dropped b i j then 0
                     else at3 x b i j / (1 - dropout_p m)))"

subsection \<open>TokenEmbedding\<close>

record Conv1d =
  in_channels :: nat
  out_channels :: nat
  kernel_size :: nat
  padding :: nat
  conv_weight :: "real tensor3"

text \<open>
  The convolution with \<^verbatim>\<open>padding_mode="circular"\<close> on an input \<open>[B, C, L]\<close>: the input is
  padded on both sides by \<open>padding\<close> elements taken from its other end (which the library
  refuses when it would wrap around more than once), and the kernel then slides over the
  padded sequence without further padding.
\<close>

definition Conv1d_forward :: "Conv1d \<Rightarrow> real tensor3 \<Rightarrow> error + real tensor3" where
  "Conv1d_forward m x =
     (if dim1 x \<noteq> in_channels m then Inl RuntimeError
      else if dim2 x < padding m then Inl RuntimeError
      else if dim2 x + 2 * padding m < kernel_size m then Inl RuntimeError
      else Inr (mk3 (dim0 x) (out_channels m) (dim2 x + 2 * padding m - kernel_size m + 1)
             (\<lambda>b out t. sum_upto (dim1 x) (\<lambda>c. sum_upto (kernel_size m) (\<lambda>k.
                at3 (conv_weight m) out c k
                  * at3 x b c ((t + k + dim2 x - padding m) mod dim2 x))))))"

record TokenEmbedding =
  tokenConv :: Conv1d

text \<open>
  \<^verbatim>\<open>padding = 1 if torch.__version__ >= "1.5.0" else 2\<close> compares two strings, character by
  character.
\<close>

definition TokenEmbedding_init ::
  "string \<Rightarrow> nat \<Rightarrow> nat \<Rightarrow> (nat \<Rightarrow> nat \<Rightarrow> nat \<Rightarrow> real) \<Rightarrow> TokenEmbedding" where
  "TokenEmbedding_init torch_version c_in d_model w0 =
     (let pad = (if torch_version \<ge> ''1.5.0'' then 1 else 2) in
      \<lparr>tokenConv =
         \<lparr>in_channels = c_in, out_channels = d_model, kernel_size = 3, padding = pad,
          conv_weight = mk3 d_model c_in 3 w0\<rparr>\<rparr>)"

definition TokenEmbedding_forward :: "TokenEmbedding \<Rightarrow> real tensor3 \<Rightarrow> error + real tensor3" where
  "TokenEmbedding_forward m x =
     res_bind (Conv1d_forward (tokenConv m) (permute021 x)) (\<lambda>y. Inr (permute021 y))"

subsection \<open>FixedEmbedding and TemporalEmbedding\<close>

record Embedding =
  emb_weight :: "real tensor2"

definition FixedEmbedding_init :: "nat \<Rightarrow> nat \<Rightarrow> error + Embedding" where
  "FixedEmbedding_init c_in d_model =
     res_bind (sinusoid_table c_in d_model) (\<lambda>w. Inr \<lparr>emb_weight = w\<rparr>)"

definition nn_Embedding_init :: "nat \<Rightarrow> nat \<Rightarrow> (nat \<Rightarrow> nat \<Rightarrow> real) \<Rightarrow> Embedding" where
  "nn_Embedding_init num_embeddings d_model w0 = \<lparr>emb_weight = mk2 num_embeddings d_model w0\<rparr>"

text \<open>A lookup raises when an index is negative or not below the number of rows.\<close>

definition index_ok :: "nat \<Rightarrow> int tensor2 \<Rightarrow> bool" where
  "index_ok n ix \<longleftrightarrow>
     list_all (\<lambda>b. list_all (\<lambda>l. 0 \<le> at2 ix b l \<and> at2 ix b l < int n) [0..<cols2 ix])
       [0..<rows2 ix]"

definition Embedding_forward :: "Embedding \<Rightarrow> int tensor2 \<Rightarrow> error + real tensor3" where
  "Embedding_forward m ix =
     (if index_ok (rows2 (emb_weight m)) ix
      then Inr (mk3 (rows2 ix) (cols2 ix) (cols2 (emb_weight m))
             (\<lambda>b l j. at2 (emb_weight m) (nat (at2 ix b l)) j))
      else Inl IndexError)"

text \<open>\<^verbatim>\<open>x.long()\<close> drops the fractional part, towards zero.\<close>

definition long_cast :: "real \<Rightarrow> int" where
  "long_cast r = (if 0 \<le> r then \<lfloor>r\<rfloor> else \<lceil>r\<rceil>)"

definition long3 :: "real tensor3 \<Rightarrow> int tensor3" where
  "long3 x = mk3 (dim0 x) (dim1 x) (dim2 x) (\<lambda>b l k. long_cast (at3 x b l k))"

text \<open>\<^verbatim>\<open>x[:, :, k]\<close>.\<close>

definition select_col :: "'a tensor3 \<Rightarrow> nat \<Rightarrow> error + 'a tensor2" where
  "select_col x k =
     (if k < dim2 x then Inr (mk2 (dim0 x) (dim1 x) (\<lambda>b l. at3 x b l k)) else Inl IndexError)"

record TemporalEmbedding =
  minute_embed :: "Embedding option"
  hour_embed :: Embedding
  weekday_embed :: Embedding
  day_embed :: Embedding
  month_embed :: Embedding

definition Embed_init ::
  "string \<Rightarrow> nat \<Rightarrow> nat \<Rightarrow> (nat \<Rightarrow> nat \<Rightarrow> real) \<Rightarrow> error + Embedding" where
  "Embed_init embed_type c_in d_model w0 =
     (if embed_type = ''fixed'' then FixedEmbedding_init c_in d_model
      else Inr (nn_Embedding_init c_in d_model w0))"

definition TemporalEmbedding_init ::
  "nat \<Rightarrow> string \<Rightarrow> string \<Rightarrow> (string \<Rightarrow> nat \<Rightarrow> nat \<Rightarrow> real) \<Rightarrow> error + TemporalEmbedding" where
  "TemporalEmbedding_init d_model embed_type freq w0 =
     (let minute_size = 4; hour_size = 24; weekday_size = 7; day_size = 32; month_size = 13 in
      res_bind
        (if freq = ''t''
         then res_bind (Embed_init embed_type minute_size d_model (w0 ''minute_embed''))
                (\<lambda>e. Inr (Some e))
         else Inr None) (\<lambda>minute.
      res_bind (Embed_init embed_type hour_size d_model (w0 ''hour_embed'')) (\<lambda>hour.
      res_bind (Embed_init embed_type weekday_size d_model (w0 ''weekday_embed'')) (\<lambda>weekday.
      res_bind (Embed_init embed_type day_size d_model (w0 ''day_embed'')) (\<lambda>day.
      res_bind (Embed_init embed_type month_size d_model (w0 ''month_embed'')) (\<lambda>month.
        Inr \<lparr>minute_embed = minute, hour_embed = hour, weekday_embed = weekday,
             day_embed = day, month_embed = month\<rparr>))))))"

text \<open>One field: the column is selected and looked up.\<close>

definition field_lookup :: "Embedding \<Rightarrow> int tensor3 \<Rightarrow> nat \<Rightarrow> error + real tensor3" where
  "field_lookup e x k = res_bind (select_col x k) (Embedding_forward e)"

text \<open>
  Without the attribute \<^verbatim>\<open>minute_embed\<close> the minute term is the number \<^verbatim>\<open>0.0\<close>, and
  adding it changes nothing.
\<close>

definition add_minute :: "real tensor3 \<Rightarrow> real tensor3 option \<Rightarrow> error + real tensor3" where
  "add_minute s minute_x = (case minute_x of None \<Rightarrow> Inr s | Some t \<Rightarrow> add3 s t)"

definition TemporalEmbedding_forward :: "TemporalEmbedding \<Rightarrow> real tensor3 \<Rightarrow> error + real tensor3" where
  "TemporalEmbedding_forward m x0 =
     (let x = long3 x0 in
      res_bind
        (case minute_embed m of
           Some e \<Rightarrow> res_bind (field_lookup e x 4) (\<lambda>y. Inr (Some y))
         | None \<Rightarrow> Inr None) (\<lambda>minute_x.
      res_bind (field_lookup (hour_embed m) x 3) (\<lambda>hour_x.
      res_bind (field_lookup (weekday_embed m) x 2) (\<lambda>weekday_x.
      res_bind (field_lookup (day_embed m) x 1) (\<lambda>day_x.
      res_bind (field_lookup (month_embed m) x 0) (\<lambda>month_x.
      res_bind (add3 hour_x weekday_x) (\<lambda>s1.
      res_bind (add3 s1 day_x) (\<lambda>s2.
      res_bind (add3 s2 month_x) (\<lambda>s3.
        add_minute s3 minute_x)))))))))"

subsection \<open>TimeFeatureEmbedding\<close>

definition freq_map :: "string \<rightharpoonup> nat" where
  "freq_map = map_of [(''h'', 4), (''t'', 5), (''s'', 6), (''m'', 1), (''a'', 1), (''w'', 2),
     (''d'', 3), (''b'', 3)]"

record TimeFeatureEmbedding =
  embed :: Linear

definition TimeFeatureEmbedding_init ::
  "nat \<Rightarrow> string \<Rightarrow> string \<Rightarrow> (nat \<Rightarrow> nat \<Rightarrow> real) \<Rightarrow> error + TimeFeatureEmbedding" where
  "TimeFeatureEmbedding_init d_model embed_type freq w0 =
     (case freq_map freq of
        None \<Rightarrow> Inl KeyError
      | Some d_inp \<Rightarrow> Inr \<lparr>embed = Linear_init d_inp d_model False w0 (\<lambda>i. 0)\<rparr>)"

definition TimeFeatureEmbedding_forward ::
  "TimeFeatureEmbedding \<Rightarrow> real tensor3 \<Rightarrow> error + real tensor3" where
  "TimeFeatureEmbedding_forward m x = Linear_forward (embed m) x"

text \<open>The sub-module that the \<^verbatim>\<open>DataEmbedding\<close> classes store as \<^verbatim>\<open>temporal_embedding\<close>.\<close>

datatype temporal = Temporal TemporalEmbedding | TimeFeature TimeFeatureEmbedding

definition temporal_init :: "nat \<Rightarrow> string \<Rightarrow> string \<Rightarrow> draws \<Rightarrow> error + temporal" where
  "temporal_init d_model embed_type freq dr =
     (if embed_type \<noteq> ''timeF''
      then res_bind (TemporalEmbedding_init d_model embed_type freq (table_w dr))
             (\<lambda>t. Inr (Temporal t))
      else res_bind (TimeFeatureEmbedding_init d_model embed_type freq (timef_w dr))
             (\<lambda>t. Inr (TimeFeature t)))"

definition temporal_forward :: "temporal \<Rightarrow> real tensor3 \<Rightarrow> error + real tensor3" where
  "temporal_forward t x =
     (case t of
        Temporal m \<Rightarrow> TemporalEmbedding_forward m x
      | TimeFeature m \<Rightarrow> TimeFeatureEmbedding_forward m x)"

subsection \<open>The exogenous prompt\<close>

text \<open>\<^verbatim>\<open>torch.nn.Sequential(Linear, Tanh, Linear)\<close>.\<close>

record Sequential =
  lin1 :: Linear
  lin2 :: Linear

definition Sequential_forward :: "Sequential \<Rightarrow> real tensor2 \<Rightarrow> error + real tensor2" where
  "Sequential_forward m x =
     res_bind (Linear_forward2 (lin1 m) x) (\<lambda>h. Linear_forward2 (lin2 m) (Tanh_forward2 h))"

text \<open>\<^verbatim>\<open>repeat(t, "b v -> b l v", l=l)\<close>.\<close>

definition repeat_blv :: "'a tensor2 \<Rightarrow> nat \<Rightarrow> 'a tensor3" where
  "repeat_blv t l = mk3 (rows2 t) l (cols2 t) (\<lambda>b i v. at2 t b v)"

text \<open>
  \<^verbatim>\<open>rearrange(t, "b (l d) -> b l d", l=l)\<close>: the length of the second axis is divided by
  \<open>l\<close>, and has to be a multiple of it.
\<close>

definition rearrange_b_ld :: "'a tensor2 \<Rightarrow> nat \<Rightarrow> error + 'a tensor3" where
  "rearrange_b_ld t l =
     (if l = 0 then Inl ZeroDivisionError
      else if cols2 t mod l \<noteq> 0 then Inl RuntimeError
      else Inr (mk3 (rows2 t) l (cols2 t div l) (\<lambda>b i j. at2 t b (i * (cols2 t div l) + j))))"

text \<open>
  The attributes that \<^verbatim>\<open>DataEmbeddingWithExoPromptTuning\<close> and
  \<^verbatim>\<open>DataEmbedding_inverted_WithExoPromptTuning\<close> both set first. In the records of the
  classes below, an attribute name that several classes use carries a suffix for its class.
\<close>

record ExoPrompt =
  prompt_tuning_type :: string
  num_virtual_tokens :: nat
  exo_prompt_dim :: nat
  exo_prompt_projector :: "Sequential option"
  exo_prompt_projector_hidden_size :: nat

text \<open>The \<^verbatim>\<open>match prompt_tuning_type\<close> statement of both constructors.\<close>

definition match_prompt_tuning_type ::
  "draws \<Rightarrow> string \<Rightarrow> nat \<Rightarrow> nat \<Rightarrow> nat \<Rightarrow> nat \<Rightarrow> error + Sequential option" where
  "match_prompt_tuning_type dr ptt d_model n_virtual prompt_dim hidden =
     (if ptt = ''two_layer_mlp''
      then Inr (Some \<lparr>lin1 = Linear_init prompt_dim hidden True (proj_w1 dr) (proj_b1 dr),
                      lin2 = Linear_init hidden (d_model * n_virtual) True
                               (proj_w2 dr) (proj_b2 dr)\<rparr>)
      else if ptt = ''brute_concat'' then Inr None
      else Inl ValueError)"

text \<open>
  The first \<^verbatim>\<open>if\<close>/\<^verbatim>\<open>elif\<close> of both forward passes; \<open>l\<close> is \<^verbatim>\<open>x.size(1)\<close>. With any
  other \<^verbatim>\<open>prompt_tuning_type\<close> the prompt would stay a matrix, which the concatenation
  that follows refuses.
\<close>

definition prepare_exo_prompt ::
  "'a ExoPrompt_scheme \<Rightarrow> real tensor2 \<Rightarrow> nat \<Rightarrow> error + real tensor3" where
  "prepare_exo_prompt m exo_prompt l =
     (if prompt_tuning_type m \<in> set [''brute_concat''] then Inr (repeat_blv exo_prompt l)
      else if prompt_tuning_type m \<in> set [''two_layer_mlp'']
      then (case exo_prompt_projector m of
              None \<Rightarrow> Inl RuntimeError
            | Some pr \<Rightarrow>
                res_bind (Sequential_forward pr exo_prompt)
                  (\<lambda>e. rearrange_b_ld e (num_virtual_tokens m)))
      else Inl RuntimeError)"

subsection \<open>DataEmbeddingWithExoPromptTuning\<close>

record DataEmbeddingWithExoPromptTuning = ExoPrompt +
  value_embedding :: TokenEmbedding
  position_embedding :: PositionalEmbedding
  temporal_embedding :: temporal
  dropout :: Dropout

definition DataEmbeddingWithExoPromptTuning_init ::
  "string \<Rightarrow> draws \<Rightarrow> nat \<Rightarrow> nat \<Rightarrow> string \<Rightarrow> string \<Rightarrow> real \<Rightarrow> string \<Rightarrow> nat \<Rightarrow> nat \<Rightarrow> nat
     \<Rightarrow> error + DataEmbeddingWithExoPromptTuning" where
  "DataEmbeddingWithExoPromptTuning_init torch_version dr c_in d_model embed_type freq
       dropout_prob ptt n_virtual prompt_dim hidden =
     res_bind (match_prompt_tuning_type dr ptt d_model n_virtual prompt_dim hidden) (\<lambda>projector.
     let token_embedding_c_in =
           (if ptt \<notin> set [''brute_concat''] then c_in else c_in + prompt_dim);
         value = TokenEmbedding_init torch_version token_embedding_c_in d_model (conv_w dr)
     in
     res_bind (PositionalEmbedding_init d_model 5000) (\<lambda>position.
     res_bind (temporal_init d_model embed_type freq dr) (\<lambda>temporal.
     res_bind (Dropout_init dropout_prob) (\<lambda>dp.
       Inr \<lparr>prompt_tuning_type = ptt, num_virtual_tokens = n_virtual,
            exo_prompt_dim = prompt_dim, exo_prompt_projector = projector,
            exo_prompt_projector_hidden_size = hidden,
            value_embedding = value, position_embedding = position,
            temporal_embedding = temporal, dropout = dp\<rparr>))))"

text \<open>
  The value embedding and the prompt, which both branches on \<^verbatim>\<open>x_mark\<close> compute in the same
  way, followed by \<^verbatim>\<open>x = x + self.position_embedding(x)\<close>.
\<close>

definition exo_value_and_position ::
  "DataEmbeddingWithExoPromptTuning \<Rightarrow> real tensor3 \<Rightarrow> real tensor3 \<Rightarrow> error + real tensor3" where
  "exo_value_and_position m exo_prompt x =
     res_bind
       (if prompt_tuning_type m \<in> set [''brute_concat'']
        then res_bind (cat_dim2 exo_prompt x) (TokenEmbedding_forward (value_embedding m))
        else res_bind (TokenEmbedding_forward (value_embedding m) x) (cat_dim1 exo_prompt))
       (\<lambda>x1. add3 x1 (PositionalEmbedding_forward (position_embedding m) x1))"

definition DataEmbeddingWithExoPromptTuning_forward ::
  "DataEmbeddingWithExoPromptTuning \<Rightarrow> mode \<Rightarrow> real tensor3 \<Rightarrow> real tensor3 option
     \<Rightarrow> real tensor2 \<Rightarrow> error + real tensor3" where
  "DataEmbeddingWithExoPromptTuning_forward m md x x_mark exo_prompt0 =
     res_bind (prepare_exo_prompt m exo_prompt0 (dim1 x)) (\<lambda>exo_prompt.
     case x_mark of
       None \<Rightarrow>
         res_bind (exo_value_and_position m exo_prompt x) (\<lambda>x2.
           Inr (Dropout_forward (dropout m) md x2))
     | Some xm \<Rightarrow>
         res_bind (exo_value_and_position m exo_prompt x) (\<lambda>x2.
         res_bind (temporal_forward (temporal_embedding m) xm) (\<lambda>temporal.
         res_bind
           (if prompt_tuning_type m \<notin> set [''brute_concat'']
            then cat_dim1 (zeros_like exo_prompt) temporal
            else Inr temporal) (\<lambda>temporal'.
         res_bind (add3 x2 temporal') (\<lambda>x3.
           Inr (Dropout_forward (dropout m) md x3))))))"

subsection \<open>DataEmbedding_inverted_WithExoPromptTuning\<close>

record DataEmbedding_inverted_WithExoPromptTuning = ExoPrompt +
  value_embedding_ie :: Linear
  dropout_ie :: Dropout

definition DataEmbedding_inverted_WithExoPromptTuning_init ::
  "draws \<Rightarrow> nat \<Rightarrow> nat \<Rightarrow> string \<Rightarrow> string \<Rightarrow> real \<Rightarrow> string \<Rightarrow> nat \<Rightarrow> nat \<Rightarrow> nat
     \<Rightarrow> error + DataEmbedding_inverted_WithExoPromptTuning" where
  "DataEmbedding_inverted_WithExoPromptTuning_init dr c_in d_model embed_type freq
       dropout_prob ptt n_virtual prompt_dim hidden =
     res_bind (match_prompt_tuning_type dr ptt d_model n_virtual prompt_dim hidden) (\<lambda>projector.
     let token_embedding_c_in =
           (if ptt \<notin> set [''brute_concat''] then c_in else c_in + prompt_dim)
     in
     res_bind (Dropout_init dropout_prob) (\<lambda>dp.
       Inr \<lparr>prompt_tuning_type = ptt, num_virtual_tokens = n_virtual,
            exo_prompt_dim = prompt_dim, exo_prompt_projector = projector,
            exo_prompt_projector_hidden_size = hidden,
            value_embedding_ie =
              Linear_init token_embedding_c_in d_model True (linear_w dr) (linear_b dr),
            dropout_ie = dp\<rparr>))"

text \<open>
  \<^verbatim>\<open>F.pad(t, (0, n))\<close>: \<open>n\<close> zeros on the right of the last axis, or \<open>- n\<close> elements cut
  from it when \<open>n\<close> is negative.
\<close>

definition pad_right :: "real tensor3 \<Rightarrow> int \<Rightarrow> error + real tensor3" where
  "pad_right t n =
     (if int (dim2 t) + n < 0 then Inl RuntimeError
      else Inr (mk3 (dim0 t) (dim1 t) (nat (int (dim2 t) + n))
             (\<lambda>b i j. if j < dim2 t then at3 t b i j else 0)))"

definition DataEmbedding_inverted_WithExoPromptTuning_forward ::
  "DataEmbedding_inverted_WithExoPromptTuning \<Rightarrow> mode \<Rightarrow> real tensor3 \<Rightarrow> real tensor3 option
     \<Rightarrow> real tensor2 \<Rightarrow> error + real tensor3" where
  "DataEmbedding_inverted_WithExoPromptTuning_forward m md x0 x_mark exo_prompt0 =
     (let x = permute021 x0 in
      res_bind (prepare_exo_prompt m exo_prompt0 (dim1 x)) (\<lambda>exo_prompt.
      res_bind
        (case x_mark of
           None \<Rightarrow>
             if prompt_tuning_type m \<in> set [''brute_concat'']
             then res_bind (cat_dim2 x exo_prompt) (Linear_forward (value_embedding_ie m))
             else res_bind (Linear_forward (value_embedding_ie m) x)
                    (\<lambda>v. cat_dim1 v exo_prompt)
         | Some xm \<Rightarrow>
             let x_mark_i = permute021 xm in
             if prompt_tuning_type m \<in> set [''brute_concat'']
             then res_bind (cat_dim2 x exo_prompt) (\<lambda>x1.
                  let pad_length = int (dim2 x1) - int (dim2 x_mark_i) in
                  res_bind (pad_right x_mark_i pad_length) (\<lambda>x_mark_p.
                  res_bind (cat_dim1 x1 x_mark_p) (Linear_forward (value_embedding_ie m))))
             else res_bind (cat_dim1 x x_mark_i) (\<lambda>c.
                  res_bind (Linear_forward (value_embedding_ie m) c) (\<lambda>v.
                    cat_dim1 v exo_prompt)))
        (\<lambda>x2. Inr (Dropout_forward (dropout_ie m) md x2))))"

subsection \<open>DataEmbedding_inverted\<close>

record DataEmbedding_inverted =
  value_embedding_inv :: Linear
  dropout_inv :: Dropout

definition DataEmbedding_inverted_init ::
  "draws \<Rightarrow> nat \<Rightarrow> nat \<Rightarrow> string \<Rightarrow> string \<Rightarrow> real \<Rightarrow> error + DataEmbedding_inverted" where
  "DataEmbedding_inverted_init dr c_in d_model embed_type freq dropout_prob =
     res_bind (Dropout_init dropout_prob) (\<lambda>dp.
       Inr \<lparr>value_embedding_inv = Linear_init c_in d_model True (linear_w dr) (linear_b dr),
            dropout_inv = dp\<rparr>)"

definition DataEmbedding_inverted_forward ::
  "DataEmbedding_inverted \<Rightarrow> mode \<Rightarrow> real tensor3 \<Rightarrow> real tensor3 option
     \<Rightarrow> error + real tensor3" where
  "DataEmbedding_inverted_forward m md x0 x_mark =
     (let x = permute021 x0 in
      res_bind
        (case x_mark of
           None \<Rightarrow> Linear_forward (value_embedding_inv m) x
         | Some xm \<Rightarrow>
             res_bind (cat_dim1 x (permute021 xm)) (Linear_forward (value_embedding_inv m)))
        (\<lambda>y. Inr (Dropout_forward (dropout_inv m) md y)))"

subsection \<open>PatchEmbedding\<close>

text \<open>
  \<^verbatim>\<open>nn.ReplicationPad1d((0, n))\<close> on an input \<open>[B, V, T]\<close>: the last element of the time
  axis is repeated \<open>n\<close> times on the right. The library refuses an input whose second or
  third size is zero.
\<close>

definition ReplicationPad1d_forward :: "nat \<Rightarrow> real tensor3 \<Rightarrow> error + real tensor3" where
  "ReplicationPad1d_forward n x =
     (if dim1 x = 0 \<or> dim2 x = 0 then Inl RuntimeError
      else Inr (mk3 (dim0 x) (dim1 x) (dim2 x + n)
             (\<lambda>b v t. at3 x b v (min t (dim2 x - 1)))))"

text \<open>
  \<^verbatim>\<open>x.unfold(dimension=-1, size=sz, step=step)\<close>: the windows of length \<open>sz\<close> that
  start at the multiples of \<open>step\<close> and fit.
\<close>

definition unfold_last :: "real tensor3 \<Rightarrow> nat \<Rightarrow> nat \<Rightarrow> error + real tensor4" where
  "unfold_last x sz step =
     (if dim2 x < sz then Inl RuntimeError
      else if step = 0 then Inl RuntimeError
      else Inr (mk4 (dim0 x) (dim1 x) ((dim2 x - sz) div step + 1) sz
             (\<lambda>b v i k. at3 x b v (i * step + k))))"

text \<open>\<^verbatim>\<open>torch.reshape(x, (x.shape[0] * x.shape[1], x.shape[2], x.shape[3]))\<close>.\<close>

definition reshape_fold :: "'a tensor4 \<Rightarrow> 'a tensor3" where
  "reshape_fold x =
     mk3 (d4_0 x * d4_1 x) (d4_2 x) (d4_3 x)
       (\<lambda>r i k. at4 x (r div d4_1 x) (r mod d4_1 x) i k)"

record PatchEmbedding =
  patch_len :: nat
  stride :: nat
  padding_patch_layer :: nat
  value_embedding_patch :: Linear
  position_embedding_patch :: PositionalEmbedding
  dropout_patch :: Dropout

definition PatchEmbedding_init ::
  "draws \<Rightarrow> nat \<Rightarrow> nat \<Rightarrow> nat \<Rightarrow> nat \<Rightarrow> real \<Rightarrow> error + PatchEmbedding" where
  "PatchEmbedding_init dr d_model patch_length step pad dropout_prob =
     res_bind (PositionalEmbedding_init d_model 5000) (\<lambda>position.
     res_bind (Dropout_init dropout_prob) (\<lambda>dp.
       Inr \<lparr>patch_len = patch_length, stride = step, padding_patch_layer = pad,
            value_embedding_patch = Linear_init patch_length d_model False (linear_w dr) (\<lambda>i. 0),
            position_embedding_patch = position, dropout_patch = dp\<rparr>))"

definition PatchEmbedding_forward ::
  "PatchEmbedding \<Rightarrow> mode \<Rightarrow> real tensor3 \<Rightarrow> error + (real tensor3 \<times> nat)" where
  "PatchEmbedding_forward m md x =
     (let n_vars = dim1 x in
      res_bind (ReplicationPad1d_forward (padding_patch_layer m) x) (\<lambda>x1.
      res_bind (unfold_last x1 (patch_len m) (stride m)) (\<lambda>x2.
      let x3 = reshape_fold x2 in
      res_bind (Linear_forward (value_embedding_patch m) x3) (\<lambda>v.
      res_bind (add3 v (PositionalEmbedding_forward (position_embedding_patch m) x3)) (\<lambda>x4.
        Inr (Dropout_forward (dropout_patch m) md x4, n_vars))))))"

section \<open>Properties\<close>

subsection \<open>Tensors\<close>

lemma at1_mk1 [simp]: "i < n \<Longrightarrow> at1 (mk1 n f) i = f i"
  by (simp add: at1_def mk1_def)

lemma at2_mk2 [simp]: "i < r \<Longrightarrow> j < c \<Longrightarrow> at2 (mk2 r c f) i j = f i j"
  by (simp add: at2_def mk2_def)

lemma at3_mk3 [simp]: "i < b \<Longrightarrow> j < l \<Longrightarrow> k < d \<Longrightarrow> at3 (mk3 b l d f) i j k = f i j k"
  by (simp add: at3_def mk3_def)

lemma at4_mk4 [simp]:
  "i < a \<Longrightarrow> j < b \<Longrightarrow> k < c \<Longrightarrow> m < d \<Longrightarrow> at4 (mk4 a b c d f) i j k m = f i j k m"
  by (simp add: at4_def mk4_def)

lemma sel_mk1 [simp]: "len1 (mk1 n f) = n"
  by (simp add: mk1_def)

lemma sel_mk2 [simp]: "rows2 (mk2 r c f) = r" "cols2 (mk2 r c f) = c"
  by (simp_all add: mk2_def)

lemma sel_mk3 [simp]: "dim0 (mk3 b l d f) = b" "dim1 (mk3 b l d f) = l" "dim2 (mk3 b l d f) = d"
  by (simp_all add: mk3_def)

lemma sel_mk4 [simp]:
  "d4_0 (mk4 a b c d f) = a" "d4_1 (mk4 a b c d f) = b"
  "d4_2 (mk4 a b c d f) = c" "d4_3 (mk4 a b c d f) = d"
  by (simp_all add: mk4_def)

lemma has_shape2_mk2 [simp]: "has_shape2 (mk2 r c f) r' c' \<longleftrightarrow> r = r' \<and> c = c'"
  by (auto simp: has_shape2_def mk2_def list_all_iff)

lemma has_shape3_mk3 [simp]: "has_shape3 (mk3 b l d f) b' l' d' \<longleftrightarrow> b = b' \<and> l = l' \<and> d = d'"
  by (auto simp: has_shape3_def mk3_def list_all_iff)

lemma mk3_cong:
  assumes "\<And>i j k. i < b \<Longrightarrow> j < l \<Longrightarrow> k < d \<Longrightarrow> f i j k = g i j k"
  shows "mk3 b l d f = mk3 b l d g"
  using assms by (simp add: mk3_def)

lemma mk2_cong:
  assumes "\<And>i j. i < r \<Longrightarrow> j < c \<Longrightarrow> f i j = g i j"
  shows "mk2 r c f = mk2 r c g"
  using assms by (simp add: mk2_def)

lemma sum_upto_cong:
  assumes "\<And>i. i < n \<Longrightarrow> f i = g i"
  shows "sum_upto n f = sum_upto n g"
  unfolding sum_upto_def
  by (rule arg_cong [where f = sum_list], rule map_cong) (simp_all add: assms)

subsection \<open>PositionalEmbedding\<close>

lemma div_term_powr:
  assumes "0 < d_model"
  shows "real p * div_term d_model i = real p / 10000 powr (real (2 * i) / real d_model)"
proof -
  have "div_term d_model i = exp (- (real (2 * i) / real d_model * ln 10000))"
    by (simp add: div_term_def)
  also have "\<dots> = inverse (10000 powr (real (2 * i) / real d_model))"
    by (simp add: powr_def exp_minus)
  finally show ?thesis
    by (simp add: divide_inverse)
qed

lemma PositionalEmbedding_init_Inr:
  assumes "PositionalEmbedding_init d_model max_len = Inr m"
  shows "0 < d_model"
    and "pe m = mk3 1 max_len d_model
           (\<lambda>b p c. if even c then sin (real p * div_term d_model (c div 2))
                    else cos (real p * div_term d_model (c div 2)))"
proof -
  show pos: "0 < d_model"
    using assms by (auto simp: PositionalEmbedding_init_def sinusoid_table_def split: if_splits)
  have "pe m = unsqueeze0 (mk2 max_len d_model
           (\<lambda>p c. if even c then sin (real p * div_term d_model (c div 2))
                  else cos (real p * div_term d_model (c div 2))))"
    using assms
    by (auto simp: PositionalEmbedding_init_def sinusoid_table_def Let_def split: if_splits)
  also have "\<dots> = mk3 1 max_len d_model
           (\<lambda>b p c. if even c then sin (real p * div_term d_model (c div 2))
                    else cos (real p * div_term d_model (c div 2)))"
    unfolding unsqueeze0_def sel_mk2 by (rule mk3_cong) simp
  finally show "pe m = mk3 1 max_len d_model
           (\<lambda>b p c. if even c then sin (real p * div_term d_model (c div 2))
                    else cos (real p * div_term d_model (c div 2)))" .
qed

lemma PositionalEmbedding_init_even:
  assumes "0 < d_model" "even d_model"
  shows "\<exists>m. PositionalEmbedding_init d_model max_len = Inr m"
proof -
  from assms have "(d_model + 1) div 2 = d_model div 2"
    by (elim evenE) simp
  with assms show ?thesis
    by (simp add: PositionalEmbedding_init_def sinusoid_table_def Let_def)
qed

text \<open>
  C3. For a module that the constructor built, for every sequence length \<open>L \<le> max_len\<close>
  and every input whose size along dimension 1 is \<open>L\<close>, the forward pass returns a tensor of
  shape \<open>[1, L, d_model]\<close> whose even channel \<open>2 * i\<close> at position \<open>p\<close> is
  \<open>sin (p / 10000 ^ (2 * i / d_model))\<close> and whose odd channel \<open>2 * i + 1\<close> is the cosine of
  the same angle.
\<close>

theorem PositionalEmbedding_forward_table:
  assumes "PositionalEmbedding_init d_model max_len = Inr m"
    and "dim1 x = L" and "L \<le> max_len"
  shows "has_shape3 (PositionalEmbedding_forward m x) 1 L d_model \<and>
         (\<forall>p<L. \<forall>i.
            (2 * i < d_model \<longrightarrow>
               at3 (PositionalEmbedding_forward m x) 0 p (2 * i) =
                 sin (real p / 10000 powr (real (2 * i) / real d_model))) \<and>
            (2 * i + 1 < d_model \<longrightarrow>
               at3 (PositionalEmbedding_forward m x) 0 p (2 * i + 1) =
                 cos (real p / 10000 powr (real (2 * i) / real d_model))))"
proof -
  note init = PositionalEmbedding_init_Inr [OF assms(1)]
  have fwd: "PositionalEmbedding_forward m x = mk3 1 L d_model (at3 (pe m))"
    using assms(2,3) by (simp add: PositionalEmbedding_forward_def slice_dim1_def init(2) min_def)
  have shape: "has_shape3 (PositionalEmbedding_forward m x) 1 L d_model"
    by (simp add: fwd)
  have vals: "(2 * i < d_model \<longrightarrow>
               at3 (PositionalEmbedding_forward m x) 0 p (2 * i) =
                 sin (real p / 10000 powr (real (2 * i) / real d_model))) \<and>
            (2 * i + 1 < d_model \<longrightarrow>
               at3 (PositionalEmbedding_forward m x) 0 p (2 * i + 1) =
                 cos (real p / 10000 powr (real (2 * i) / real d_model)))"
    if "p < L" for p i
  proof -
    from that assms(3) have p: "p < max_len" by simp
    have "(2 * i + 1) div 2 = i" by simp
    with that p div_term_powr [OF init(1), of p i] show ?thesis
      by (simp add: fwd init(2))
  qed
  from shape vals show ?thesis by blast
qed

theorem PositionalEmbedding_forward_table_witness:
  "PositionalEmbedding_init 4 8 = Inr \<lparr>pe = unsqueeze0 (mk2 8 4
       (\<lambda>p c. if even c then sin (real p * div_term 4 (c div 2))
              else cos (real p * div_term 4 (c div 2))))\<rparr> \<and>
   dim1 (mk3 2 3 1 (\<lambda>b i j. 0::real)) = 3 \<and> (3::nat) \<le> 8 \<and>
   has_shape3 (PositionalEmbedding_forward \<lparr>pe = unsqueeze0 (mk2 8 4
       (\<lambda>p c. if even c then sin (real p * div_term 4 (c div 2))
              else cos (real p * div_term 4 (c div 2))))\<rparr> (mk3 2 3 1 (\<lambda>b i j. 0::real))) 1 3 4 \<and>
   at3 (PositionalEmbedding_forward \<lparr>pe = unsqueeze0 (mk2 8 4
       (\<lambda>p c. if even c then sin (real p * div_term 4 (c div 2))
              else cos (real p * div_term 4 (c div 2))))\<rparr> (mk3 2 3 1 (\<lambda>b i j. 0::real))) 0 2 3 =
     cos (2 / 10000 powr (2 / 4))"
proof -
  let ?m = "\<lparr>pe = unsqueeze0 (mk2 8 4
       (\<lambda>p c. if even c then sin (real p * div_term 4 (c div 2))
              else cos (real p * div_term 4 (c div 2))))\<rparr>"
  let ?x = "mk3 2 3 1 (\<lambda>b i j. 0::real)"
  have init: "PositionalEmbedding_init 4 8 = Inr ?m"
    by (simp add: PositionalEmbedding_init_def sinusoid_table_def)
  have sz: "dim1 ?x = 3" by simp
  have le: "(3::nat) \<le> 8" by simp
  from PositionalEmbedding_forward_table [OF init sz le]
  have shape: "has_shape3 (PositionalEmbedding_forward ?m ?x) 1 3 4"
    and vals: "\<forall>p<3. \<forall>i. (2 * i < (4::nat) \<longrightarrow>
               at3 (PositionalEmbedding_forward ?m ?x) 0 p (2 * i) =
                 sin (real p / 10000 powr (real (2 * i) / real (4::nat)))) \<and>
            (2 * i + 1 < (4::nat) \<longrightarrow>
               at3 (PositionalEmbedding_forward ?m ?x) 0 p (2 * i + 1) =
                 cos (real p / 10000 powr (real (2 * i) / real (4::nat))))"
    by blast+
  have "(2::nat) < 3" by simp
  with vals have "2 * 1 + 1 < (4::nat) \<longrightarrow>
               at3 (PositionalEmbedding_forward ?m ?x) 0 2 (2 * 1 + 1) =
                 cos (real (2::nat) / 10000 powr (real (2 * (1::nat)) / real (4::nat)))"
    by blast
  then have "at3 (PositionalEmbedding_forward ?m ?x) 0 2 3 = cos (2 / 10000 powr (2 / 4))"
    by simp
  with init sz le shape show ?thesis by blast
qed

subsection \<open>TokenEmbedding\<close>

lemma TokenEmbedding_init_sel [simp]:
  "padding (tokenConv (TokenEmbedding_init v c_in d_model w0)) = (if v \<ge> ''1.5.0'' then 1 else 2)"
  "in_channels (tokenConv (TokenEmbedding_init v c_in d_model w0)) = c_in"
  "out_channels (tokenConv (TokenEmbedding_init v c_in d_model w0)) = d_model"
  "kernel_size (tokenConv (TokenEmbedding_init v c_in d_model w0)) = 3"
  "conv_weight (tokenConv (TokenEmbedding_init v c_in d_model w0)) = mk3 d_model c_in 3 w0"
  by (simp_all add: TokenEmbedding_init_def Let_def)

text \<open>
  The forward pass in closed form: output position \<open>t\<close> reads the input positions
  \<open>t + k - padding\<close> for \<open>k < kernel_size\<close>, taken modulo the sequence length.
\<close>

lemma TokenEmbedding_forward_eq:
  assumes "dim2 x = in_channels (tokenConv m)" and "padding (tokenConv m) \<le> dim1 x"
    and "0 < padding (tokenConv m)"
    and "kernel_size (tokenConv m) \<le> dim1 x + 2 * padding (tokenConv m)"
  shows "TokenEmbedding_forward m x =
         Inr (mk3 (dim0 x) (dim1 x + 2 * padding (tokenConv m) - kernel_size (tokenConv m) + 1)
                (out_channels (tokenConv m))
           (\<lambda>b t out. sum_upto (dim2 x) (\<lambda>c. sum_upto (kernel_size (tokenConv m)) (\<lambda>k.
              at3 (conv_weight (tokenConv m)) out c k
                * at3 x b ((t + k + dim1 x - padding (tokenConv m)) mod dim1 x) c))))"
proof -
  let ?c = "tokenConv m"
  let ?n = "dim1 x + 2 * padding ?c - kernel_size ?c + 1"
  have conv: "Conv1d_forward ?c (permute021 x) =
     Inr (mk3 (dim0 x) (out_channels ?c) ?n
             (\<lambda>b out t. sum_upto (dim2 x) (\<lambda>c. sum_upto (kernel_size ?c) (\<lambda>k.
                at3 (conv_weight ?c) out c k
                  * at3 (permute021 x) b c ((t + k + dim1 x - padding ?c) mod dim1 x)))))"
    using assms by (simp add: Conv1d_forward_def permute021_def)
  have "TokenEmbedding_forward m x = Inr (mk3 (dim0 x) ?n (out_channels ?c)
     (\<lambda>b t out. at3 (mk3 (dim0 x) (out_channels ?c) ?n
             (\<lambda>b out t. sum_upto (dim2 x) (\<lambda>c. sum_upto (kernel_size ?c) (\<lambda>k.
                at3 (conv_weight ?c) out c k
                  * at3 (permute021 x) b c ((t + k + dim1 x - padding ?c) mod dim1 x))))) b out t))"
    unfolding TokenEmbedding_forward_def conv res_bind_def
    by (simp add: permute021_def [of "mk3 a b c f" for a b c f])
  also have "\<dots> = Inr (mk3 (dim0 x) ?n (out_channels ?c)
           (\<lambda>b t out. sum_upto (dim2 x) (\<lambda>c. sum_upto (kernel_size ?c) (\<lambda>k.
              at3 (conv_weight ?c) out c k
                * at3 x b ((t + k + dim1 x - padding ?c) mod dim1 x) c))))"
  proof -
    have pos: "0 < dim1 x"
      using assms(2,3) by simp
    show ?thesis
      apply (simp only: sum.inject)
      apply (rule mk3_cong)
      apply (simp add: permute021_def)
      apply (rule sum_upto_cong)
      apply (rule sum_upto_cong)
      using pos apply (simp add: permute021_def)
      done
  qed
  finally show ?thesis .
qed

text \<open>
  With a library version that compares at least \<^verbatim>\<open>"1.5.0"\<close> as a string, the padding is 1
  and a non-empty sequence keeps its length.
\<close>

lemma TokenEmbedding_forward_padding1:
  assumes "v \<ge> ''1.5.0''" and "dim2 x = c_in" and "0 < dim1 x"
  shows "TokenEmbedding_forward (TokenEmbedding_init v c_in d_model w0) x =
         Inr (mk3 (dim0 x) (dim1 x) d_model
           (\<lambda>b t out. sum_upto c_in (\<lambda>c. sum_upto 3 (\<lambda>k.
              w0 out c k * at3 x b ((t + k + dim1 x - 1) mod dim1 x) c))))"
proof -
  let ?m = "TokenEmbedding_init v c_in d_model w0"
  have "TokenEmbedding_forward ?m x =
         Inr (mk3 (dim0 x) (dim1 x) d_model
           (\<lambda>b t out. sum_upto c_in (\<lambda>c. sum_upto 3 (\<lambda>k.
              at3 (mk3 d_model c_in 3 w0) out c k * at3 x b ((t + k + dim1 x - 1) mod dim1 x) c))))"
    using assms by (simp add: TokenEmbedding_forward_eq)
  also have "\<dots> = Inr (mk3 (dim0 x) (dim1 x) d_model
           (\<lambda>b t out. sum_upto c_in (\<lambda>c. sum_upto 3 (\<lambda>k.
              w0 out c k * at3 x b ((t + k + dim1 x - 1) mod dim1 x) c))))"
    apply (simp only: sum.inject)
    apply (rule mk3_cong)
    apply (rule sum_upto_cong)
    apply (rule sum_upto_cong)
    apply simp
    done
  finally show ?thesis .
qed


end
